theory Spec2Isabelle
  imports Complex_Main
begin

section \<open>JavaScript numbers and the Math functions the engine calls\<close>

text \<open>
  The navigation engine of \<^verbatim>\<open>TurnByTurnNavigation.jsx\<close> computes on JavaScript Numbers.
  They are idealised as the reals: \<^verbatim>\<open>Math.sin\<close>, \<^verbatim>\<open>Math.cos\<close>, \<^verbatim>\<open>Math.sqrt\<close> and
  \<^verbatim>\<open>Math.PI\<close> are \<^term>\<open>sin\<close>, \<^term>\<open>cos\<close>, \<^term>\<open>sqrt\<close> and \<^term>\<open>pi\<close>; rounding error, NaN
  and the infinities are outside the model, except the initial \<^verbatim>\<open>Infinity\<close> of the
  off-route scan, which is the value \<^term>\<open>None\<close> of an option. \<^verbatim>\<open>Date.now()\<close> is an
  integer number of milliseconds.
\<close>

definition Math_atan2 :: "real \<Rightarrow> real \<Rightarrow> real" where
  "Math_atan2 y x =
     (if 0 < x then arctan (y / x)
      else if x < 0 then (if 0 \<le> y then arctan (y / x) + pi else arctan (y / x) - pi)
      else if 0 < y then pi / 2
      else if y < 0 then - (pi / 2)
      else 0)"

definition Math_round :: "real \<Rightarrow> real" where
  "Math_round x = of_int (floor (x + 1 / 2))"

definition Math_trunc :: "real \<Rightarrow> real" where
  "Math_trunc x = (if 0 \<le> x then of_int (floor x) else of_int (ceiling x))"

text \<open>The remainder operator \<^verbatim>\<open>x % y\<close>: the result has the sign of the dividend.\<close>

definition js_rem :: "real \<Rightarrow> real \<Rightarrow> real" where
  "js_rem x y = x - y * Math_trunc (x / y)"

text \<open>Truthiness of a number that may be \<^verbatim>\<open>undefined\<close> or \<^verbatim>\<open>null\<close>.\<close>

fun truthy :: "real option \<Rightarrow> bool" where
  "truthy None = False"
| "truthy (Some x) = (x \<noteq> 0)"

section \<open>Geo math\<close>

text \<open>\<^verbatim>\<open>calcDist\<close>: the haversine distance in kilometres, arguments in degrees.\<close>

definition calcDist :: "real \<Rightarrow> real \<Rightarrow> real \<Rightarrow> real \<Rightarrow> real" where
  "calcDist lat1 lon1 lat2 lon2 =
     (let R = 6371;
          dLat = (lat2 - lat1) * pi / 180;
          dLon = (lon2 - lon1) * pi / 180;
          a = (sin (dLat / 2))\<^sup>2
              + cos (lat1 * pi / 180) * cos (lat2 * pi / 180) * (sin (dLon / 2))\<^sup>2
      in R * 2 * Math_atan2 (sqrt a) (sqrt (1 - a)))"

text \<open>
  The loop of \<^verbatim>\<open>checkIfOffRoute\<close> over the route's points, each \<^verbatim>\<open>[lat, lon]\<close>.
  \<open>minDist\<close> is \<^term>\<open>None\<close> while it is still \<^verbatim>\<open>Infinity\<close>.
\<close>

fun scanRoute :: "real \<Rightarrow> real \<Rightarrow> (real \<times> real) list \<Rightarrow> real option \<Rightarrow> bool" where
  "scanRoute la lo [] minDist = (case minDist of None \<Rightarrow> True | Some m \<Rightarrow> 50 < m)"
| "scanRoute la lo (point # rest) minDist =
     (let dist = calcDist la lo (fst point) (snd point) * 1000;
          minDist' = (case minDist of
                        None \<Rightarrow> Some dist
                      | Some m \<Rightarrow> if dist < m then Some dist else Some m)
      in if dist < 50 then False else scanRoute la lo rest minDist')"

definition checkIfOffRoute :: "(real \<times> real) list option \<Rightarrow> real \<Rightarrow> real \<Rightarrow> bool" where
  "checkIfOffRoute r la lo =
     (case r of
        None \<Rightarrow> False
      | Some r \<Rightarrow> if length r = 0 then False else scanRoute la lo r None)"

section \<open>Heading smoother\<close>

text \<open>
  The third effect of \<^verbatim>\<open>MapFollower\<close>: one run of it on the raw heading (\<^term>\<open>None\<close> when
  it is not a number) and the current smoothed heading gives the smoothed heading after it.
\<close>

definition smoothHeadingEffect :: "bool \<Rightarrow> real option \<Rightarrow> real \<Rightarrow> real" where
  "smoothHeadingEffect following hd0 sm =
     (case hd0 of
        None \<Rightarrow> sm
      | Some h \<Rightarrow>
          if following then
            (let diff = \<bar>h - sm\<bar>;
                 normalizedDiff = (if 180 < diff then 360 - diff else diff)
             in if 3 < normalizedDiff then
                  (let n0 = sm + (h - sm) * 0.15;
                       n1 = (if 180 < h - sm then sm - (360 - h + sm) * 0.15 else n0);
                       n2 = (if 180 < sm - h then sm + (360 - sm + h) * 0.15 else n1)
                   in js_rem (js_rem n2 360 + 360) 360)
                else sm)
          else sm)"

section \<open>The navigation session\<close>

record coords =
  lat :: real
  lon :: real

text \<open>A waypoint as the planner hands it over; every member may be missing.\<close>

record waypoint =
  wp_text :: "string option"
  wp_name :: "string option"
  wp_coords :: "coords option"
  wp_lat :: "real option"
  wp_lon :: "real option"
  wp_isRestStop :: bool

record destination =
  dest_name :: string
  dest_lat :: "real option"
  dest_lon :: "real option"
  dest_isRestStop :: bool

text \<open>The props of \<^verbatim>\<open>TurnByTurnNavigation\<close> that the engine reads.\<close>

record props =
  route :: "(real \<times> real) list option"
  endCoords :: "coords option"
  totalDistance :: "real option"
  waypoints :: "waypoint list"
  hasOnRecalculateRoute :: bool
  language :: string

text \<open>
  The component's state that the position callback, the recalculation and the driving-time
  interval read and write; \<open>lastRecalculateTime\<close> is the ref of that name. The state of the
  presentation (mute, zoom, bottom sheet, step index) takes no part in them.
\<close>

record session =
  currentPosition :: "coords option"
  heading :: real
  speed :: real
  remainingDistance :: real
  remainingTime :: real
  progressPercent :: real
  currentWaypointIndex :: nat
  distanceToNextWaypoint :: real
  timeToNextWaypoint :: real
  nextWaypointName :: string
  showBreakWarning :: bool
  drivingTime :: nat
  isOffRoute :: bool
  showRecalculatePrompt :: bool
  lastRecalculateTime :: int

text \<open>One reading of the position source: \<^verbatim>\<open>pos.coords\<close>, speed in metres per second.\<close>

record position =
  latitude :: real
  longitude :: real
  pos_heading :: "real option"
  pos_speed :: "real option"

text \<open>\<^verbatim>\<open>a || b\<close> on numbers and on strings.\<close>

definition num_or :: "real option \<Rightarrow> real option \<Rightarrow> real option" where
  "num_or a b = (if truthy a then a else b)"

definition str_or :: "string option \<Rightarrow> string \<Rightarrow> string" where
  "str_or a b = (case a of None \<Rightarrow> b | Some x \<Rightarrow> if x = [] then b else x)"

definition allDestinations :: "props \<Rightarrow> destination list" where
  "allDestinations p =
     filter (\<lambda>d. truthy (dest_lat d) \<and> truthy (dest_lon d))
       (map (\<lambda>wp. \<lparr>dest_name = str_or (wp_text wp) (str_or (wp_name wp) ''Zwischenziel''),
                    dest_lat = num_or (map_option lat (wp_coords wp)) (wp_lat wp),
                    dest_lon = num_or (map_option lon (wp_coords wp)) (wp_lon wp),
                    dest_isRestStop = wp_isRestStop wp\<rparr>) (waypoints p)
        @ [\<lparr>dest_name = (if language p = ''de'' then ''Ziel'' else ''Destination''),
            dest_lat = map_option lat (endCoords p),
            dest_lon = map_option lon (endCoords p),
            dest_isRestStop = False\<rparr>])"

text \<open>\<^verbatim>\<open>allDestinations[currentWaypointIndex] || allDestinations[0]\<close>\<close>

definition currentDestination :: "destination list \<Rightarrow> nat \<Rightarrow> destination option" where
  "currentDestination ds i =
     (if i < length ds then Some (ds ! i)
      else if 0 < length ds then Some (ds ! 0)
      else None)"

text \<open>
  The position callback, in the source's three parts. \<open>st\<close> is the state the callback's
  closure saw when it was created (the state before the sample), \<open>acc\<close> the state with
  the updates made so far.
\<close>

definition trackWaypoint :: "props \<Rightarrow> session \<Rightarrow> real \<Rightarrow> real \<Rightarrow> real \<Rightarrow> session \<Rightarrow> session" where
  "trackWaypoint p st avgSpeed la lo acc =
     (case currentDestination (allDestinations p) (currentWaypointIndex st) of
        None \<Rightarrow> acc
      | Some d \<Rightarrow>
          (case (dest_lat d, dest_lon d) of
             (Some dla, Some dlo) \<Rightarrow>
               if dla \<noteq> 0 \<and> dlo \<noteq> 0 then
                 (let distToNext = calcDist la lo dla dlo;
                      acc1 = acc\<lparr>distanceToNextWaypoint := max 0 distToNext,
                                 timeToNextWaypoint := Math_round (distToNext / avgSpeed * 60),
                                 nextWaypointName := (if dest_name d = [] then ''Ziel'' else dest_name d)\<rparr>
                  in if distToNext < 0.2
                        \<and> int (currentWaypointIndex st) < int (length (allDestinations p)) - 1
                     then acc1\<lparr>currentWaypointIndex := currentWaypointIndex acc1 + 1\<rparr>
                     else acc1)
               else acc
           | _ \<Rightarrow> acc))"

definition trackFinal :: "props \<Rightarrow> real \<Rightarrow> real \<Rightarrow> real \<Rightarrow> session \<Rightarrow> session" where
  "trackFinal p avgSpeed la lo acc =
     (case (endCoords p, totalDistance p) of
        (Some e, Some td) \<Rightarrow>
          if td \<noteq> 0 then
            (let remainingToEnd = calcDist la lo (lat e) (lon e)
             in acc\<lparr>remainingDistance := max 0 remainingToEnd,
                    progressPercent := min 100 ((td - remainingToEnd) / td * 100),
                    remainingTime := Math_round (remainingToEnd / avgSpeed * 60)\<rparr>)
          else acc
      | _ \<Rightarrow> acc)"

definition trackOffRoute :: "props \<Rightarrow> session \<Rightarrow> real \<Rightarrow> real \<Rightarrow> session \<Rightarrow> session" where
  "trackOffRoute p st la lo acc =
     (let offRoute = checkIfOffRoute (route p) la lo
      in if offRoute \<and> \<not> isOffRoute st
         then acc\<lparr>isOffRoute := True, showRecalculatePrompt := True\<rparr>
         else acc)"

definition processSample :: "props \<Rightarrow> session \<Rightarrow> position \<Rightarrow> session" where
  "processSample p st pos =
     (let la = latitude pos;
          lo = longitude pos;
          acc0 = st\<lparr>currentPosition := Some \<lparr>lat = la, lon = lo\<rparr>\<rparr>;
          acc1 = (case pos_heading pos of None \<Rightarrow> acc0 | Some h \<Rightarrow> acc0\<lparr>heading := h\<rparr>);
          acc2 = (case pos_speed pos of
                    None \<Rightarrow> acc1
                  | Some s \<Rightarrow> acc1\<lparr>speed := Math_round (s * 3.6)\<rparr>);
          avgSpeed = (if 10 < speed st then speed st else 70)
      in trackOffRoute p st la lo
           (trackFinal p avgSpeed la lo
              (trackWaypoint p st avgSpeed la lo acc2)))"


text \<open>The state a session starts in.\<close>

definition initialSession :: "coords option \<Rightarrow> real option \<Rightarrow> real option \<Rightarrow> session" where
  "initialSession startCoords td duration =
     \<lparr>currentPosition = startCoords, heading = 0, speed = 0,
      remainingDistance = (case td of None \<Rightarrow> 0 | Some x \<Rightarrow> x),
      remainingTime = (case duration of None \<Rightarrow> 0 | Some x \<Rightarrow> x),
      progressPercent = 0, currentWaypointIndex = 0, distanceToNextWaypoint = 0,
      timeToNextWaypoint = 0, nextWaypointName = [], showBreakWarning = False,
      drivingTime = 0, isOffRoute = False, showRecalculatePrompt = False,
      lastRecalculateTime = 0\<rparr>"

section \<open>Recalculation\<close>

text \<open>
  \<^verbatim>\<open>handleRecalculate\<close> at the time \<open>now\<close> of \<^verbatim>\<open>Date.now()\<close>: the new state, and the position
  handed to \<^verbatim>\<open>onRecalculateRoute\<close> when the call is made.
\<close>

definition handleRecalculate :: "props \<Rightarrow> session \<Rightarrow> int \<Rightarrow> session \<times> coords option" where
  "handleRecalculate p st now =
     (if hasOnRecalculateRoute p \<and> currentPosition st \<noteq> None then
        if 30000 < now - lastRecalculateTime st then
          (st\<lparr>lastRecalculateTime := now, isOffRoute := False, showRecalculatePrompt := False\<rparr>,
           currentPosition st)
        else (st, None)
      else (st, None))"

text \<open>
  The callback that \<^verbatim>\<open>SimpleRoutePlanner\<close> passes as \<^verbatim>\<open>onRecalculateRoute\<close>. The planner's
  state, as far as the callback reads and writes it; a hole of the array \<^verbatim>\<open>allRoutes\<close> is
  \<^term>\<open>None\<close>.
\<close>

record route_info =
  geometry :: "(real \<times> real) list"
  distance_km :: real
  duration_minutes :: real
  instructions :: "string list"
  toll_cost :: "real option"
  fuel_cost :: "real option"

record planner =
  allRoutes :: "route_info option list"
  selectedRouteIndex :: nat
  startCoords :: "coords option"
  planner_endCoords :: "coords option"

text \<open>The member \<^verbatim>\<open>route\<close> of the routing service's answer; its points are \<^verbatim>\<open>[lon, lat]\<close>.\<close>

record main_route =
  mr_geometry :: "(real \<times> real) list option"
  mr_distance_km :: "real option"
  mr_duration_minutes :: "real option"
  mr_instructions :: "string list option"

text \<open>How the awaited \<^verbatim>\<open>axios.post\<close> ends: rejected, or resolved with \<^verbatim>\<open>response.data.route\<close>.\<close>

datatype routing_outcome = Rejected | Resolved "main_route option"

datatype js_error = RequestFailed | TypeError

datatype toast = ToastInfo | ToastSuccess | ToastError

text \<open>\<^verbatim>\<open>x.toFixed(1)\<close>, read back as a number.\<close>

definition toFixed1 :: "real \<Rightarrow> real" where
  "toFixed1 x = (if 0 \<le> x then of_int (floor (x * 10 + 1 / 2)) / 10
                else - (of_int (floor (- x * 10 + 1 / 2)) / 10))"

text \<open>\<^verbatim>\<open>xs[i] = v\<close> on an array: a write past the end extends it with holes.\<close>

definition js_set :: "'a option list \<Rightarrow> nat \<Rightarrow> 'a \<Rightarrow> 'a option list" where
  "js_set xs i v =
     (if i < length xs then xs[i := Some v]
      else xs @ replicate (i - length xs) None @ [Some v])"

definition js_get :: "'a option list \<Rightarrow> nat \<Rightarrow> 'a option" where
  "js_get xs i = (if i < length xs then xs ! i else None)"

text \<open>The body of the callback's \<^verbatim>\<open>try\<close>; \<^term>\<open>Inl\<close> is what it throws.\<close>

definition recalculateBody :: "planner \<Rightarrow> coords \<Rightarrow> routing_outcome \<Rightarrow> js_error + planner" where
  "recalculateBody pl newStart outcome =
     (case planner_endCoords pl of
        None \<Rightarrow> Inl TypeError
      | Some e \<Rightarrow>
          (case outcome of
             Rejected \<Rightarrow> Inl RequestFailed
           | Resolved None \<Rightarrow> Inl TypeError
           | Resolved (Some mainRoute) \<Rightarrow>
               (let newGeometry = (case mr_geometry mainRoute of
                                     None \<Rightarrow> []
                                   | Some g \<Rightarrow> map (\<lambda>c. (snd c, fst c)) g);
                    old = js_get (allRoutes pl) (selectedRouteIndex pl);
                    upd = \<lparr>geometry = newGeometry,
                           distance_km = (case mr_distance_km mainRoute of
                                            None \<Rightarrow> 0 | Some d \<Rightarrow> toFixed1 d),
                           duration_minutes = (case mr_duration_minutes mainRoute of
                                                 None \<Rightarrow> 0 | Some m \<Rightarrow> Math_round m),
                           instructions = (case mr_instructions mainRoute of
                                             None \<Rightarrow> [] | Some is \<Rightarrow> is),
                           toll_cost = (case old of None \<Rightarrow> None | Some r \<Rightarrow> toll_cost r),
                           fuel_cost = (case old of None \<Rightarrow> None | Some r \<Rightarrow> fuel_cost r)\<rparr>
                in Inr (pl\<lparr>allRoutes := js_set (allRoutes pl) (selectedRouteIndex pl) upd,
                           startCoords := Some \<lparr>lat = lat newStart, lon = lon newStart\<rparr>\<rparr>))))"

text \<open>
  The callback with its \<^verbatim>\<open>catch\<close>, which takes whatever the body throws: the planner's
  state after the callback and the toasts it showed.
\<close>

definition onRecalculateRoute :: "planner \<Rightarrow> coords \<Rightarrow> routing_outcome \<Rightarrow> planner \<times> toast list" where
  "onRecalculateRoute pl newStart outcome =
     (case recalculateBody pl newStart outcome of
        Inl e \<Rightarrow> (pl, [ToastInfo, ToastError])
      | Inr pl' \<Rightarrow> (pl', [ToastInfo, ToastSuccess]))"

text \<open>
  A press of the recalculation button at time \<open>now\<close>, with the outcome the routing service
  will have if it is asked: \<^verbatim>\<open>handleRecalculate\<close>, and the planner's callback on the position
  it hands over.
\<close>

definition recalculateTrigger :: "props \<Rightarrow> planner \<Rightarrow> session \<Rightarrow> int \<Rightarrow> routing_outcome \<Rightarrow> session \<times> planner \<times> toast list" where
  "recalculateTrigger p pl st now outcome =
     (case handleRecalculate p st now of
        (st', None) \<Rightarrow> (st', pl, [])
      | (st', Some pos) \<Rightarrow>
          (case onRecalculateRoute pl pos outcome of
             (pl', toasts) \<Rightarrow> (st', pl', toasts)))"

section \<open>Driving time\<close>

text \<open>
  The interval's callback: the new state, and whether it called
  \<^verbatim>\<open>setShowBreakWarning(true)\<close>, the break-warning event.
\<close>

definition drivingTick :: "session \<Rightarrow> session \<times> bool" where
  "drivingTick st =
     (let raised = (drivingTime st + 1 = 240);
          st1 = (if raised then st\<lparr>showBreakWarning := True\<rparr> else st)
      in (st1\<lparr>drivingTime := drivingTime st + 1\<rparr>, raised))"

section \<open>The events of a session\<close>

text \<open>
  Everything that writes the session's state while a navigation runs: a reading of the
  position source, a tick of the driving-time interval, and the three buttons, the one
  that calls \<^verbatim>\<open>handleRecalculate\<close> (at the time \<^verbatim>\<open>Date.now()\<close> gives), the one that
  dismisses the off-route prompt and the one that dismisses the break warning.
\<close>

datatype event =
    PositionSample position
  | DrivingTick
  | RecalculateButton int
  | IgnoreButton
  | UnderstoodButton

definition handleEvent :: "props \<Rightarrow> session \<Rightarrow> event \<Rightarrow> session" where
  "handleEvent p st e =
     (case e of
        PositionSample pos \<Rightarrow> processSample p st pos
      | DrivingTick \<Rightarrow> fst (drivingTick st)
      | RecalculateButton now \<Rightarrow> fst (handleRecalculate p st now)
      | IgnoreButton \<Rightarrow> st\<lparr>showRecalculatePrompt := False\<rparr>
      | UnderstoodButton \<Rightarrow> st\<lparr>showBreakWarning := False\<rparr>)"

text \<open>
  The states a session passes through: the one before each event, and the last. Each
  event comes with the props the component has when it arrives, which change when a
  recalculation replaces the route.
\<close>

fun sessionTrace :: "session \<Rightarrow> (props \<times> event) list \<Rightarrow> session list" where
  "sessionTrace st [] = [st]"
| "sessionTrace st ((p, e) # es) = st # sessionTrace (handleEvent p st e) es"

text \<open>How often \<open>showBreakWarning\<close> goes from false to true along a sequence of states.\<close>

fun breakWarningsRaised :: "session list \<Rightarrow> nat" where
  "breakWarningsRaised (a # b # rest) =
     (if \<not> showBreakWarning a \<and> showBreakWarning b then 1 else 0)
       + breakWarningsRaised (b # rest)"
| "breakWarningsRaised _ = 0"

section \<open>Example sessions\<close>

text \<open>
  A short route northwards along the meridian of 8 degrees east, 12 km by road, its planner
  and the session that starts on it.
\<close>

definition exampleProps :: props where
  "exampleProps =
     \<lparr>route = Some [(50, 8), (50.1, 8)], endCoords = Some \<lparr>lat = 50.1, lon = 8\<rparr>,
      totalDistance = Some 12, waypoints = [], hasOnRecalculateRoute = True,
      language = ''de''\<rparr>"

definition examplePlanner :: planner where
  "examplePlanner =
     \<lparr>allRoutes = [Some \<lparr>geometry = [(50, 8), (50.1, 8)], distance_km = 12,
                          duration_minutes = 15, instructions = [],
                          toll_cost = Some 0, fuel_cost = Some 5\<rparr>],
      selectedRouteIndex = 0, startCoords = Some \<lparr>lat = 50, lon = 8\<rparr>,
      planner_endCoords = Some \<lparr>lat = 50.1, lon = 8\<rparr>\<rparr>"

definition exampleSession :: session where
  "exampleSession = initialSession (Some \<lparr>lat = 50, lon = 8\<rparr>) (Some 12) (Some 15)"

text \<open>The angle, in degrees, of an arc of \<open>m\<close> metres on the sphere of \<^const>\<open>calcDist\<close>.\<close>

definition degreesOfMetres :: "real \<Rightarrow> real" where
  "degreesOfMetres m = m * 180 / (6371000 * pi)"

text \<open>The same route with a rest stop half way.\<close>

definition exampleStopProps :: props where
  "exampleStopProps =
     exampleProps\<lparr>waypoints :=
       [\<lparr>wp_text = Some ''Rasthof'', wp_name = None,
         wp_coords = Some \<lparr>lat = 50.05, lon = 8\<rparr>, wp_lat = None, wp_lon = None,
         wp_isRestStop = True\<rparr>]\<rparr>"

text \<open>A sample 22 km south of the destination, at 5 km/h.\<close>

definition exampleSlowSample :: position where
  "exampleSlowSample =
     \<lparr>latitude = 49.9, longitude = 8, pos_heading = Some 180, pos_speed = Some (5 / 3.6)\<rparr>"

text \<open>
  Two routes of two points that meet at a right angle: one along the meridian of 8 degrees
  east across the equator, whose middle is the point (0, 8), and one along the equator
  that starts there.
\<close>

definition meridianProps :: props where
  "meridianProps =
     \<lparr>route = Some [(- 0.5, 8), (0.5, 8)], endCoords = Some \<lparr>lat = 0.5, lon = 8\<rparr>,
      totalDistance = Some 112, waypoints = [], hasOnRecalculateRoute = True,
      language = ''en''\<rparr>"

definition meridianSession :: session where
  "meridianSession = initialSession (Some \<lparr>lat = - 0.5, lon = 8\<rparr>) (Some 112) (Some 90)"

definition equatorProps :: props where
  "equatorProps =
     \<lparr>route = Some [(0, 8), (0, 9)], endCoords = Some \<lparr>lat = 0, lon = 9\<rparr>,
      totalDistance = Some 112, waypoints = [], hasOnRecalculateRoute = True,
      language = ''en''\<rparr>"

definition equatorSession :: session where
  "equatorSession = initialSession (Some \<lparr>lat = 0, lon = 8\<rparr>) (Some 112) (Some 90)"

definition sampleAt :: "real \<Rightarrow> real \<Rightarrow> position" where
  "sampleAt la lo = \<lparr>latitude = la, longitude = lo, pos_heading = None, pos_speed = None\<rparr>"



section \<open>Facts about the geo math\<close>

lemma atan2_arcsin:
  assumes "0 \<le> a" "a \<le> 1"
  shows "Math_atan2 (sqrt a) (sqrt (1 - a)) = arcsin (sqrt a)"
proof (cases "a = 1")
  case True
  then show ?thesis by (simp add: Math_atan2_def)
next
  case False
  with assms have lt: "a < 1" by simp
  then have pos: "0 < sqrt (1 - a)" by simp
  have s1: "sqrt a < 1" using lt assms by (simp add: real_sqrt_lt_1_iff)
  have "0 \<le> sqrt a" using assms by simp
  then have s0: "- 1 < sqrt a" by linarith
  have "arcsin (sqrt a) = arctan (sqrt a / sqrt (1 - (sqrt a)\<^sup>2))"
    using arcsin_arctan [OF s0 s1] .
  also have "(sqrt a)\<^sup>2 = a" using assms by simp
  finally show ?thesis using pos by (simp add: Math_atan2_def)
qed

lemma sin_squared_le_one: "(sin (x::real))\<^sup>2 \<le> 1"
  by (simp add: sin_squared_eq)

lemma half_angle_bound:
  assumes "\<bar>d\<bar> \<le> 180"
  shows "\<bar>d * pi / 180 / 2\<bar> \<le> pi / 2"
proof -
  have "\<bar>d * pi / 180 / 2\<bar> = \<bar>d\<bar> * (pi / 360)" by (simp add: abs_mult)
  also have "\<dots> \<le> 180 * (pi / 360)" using assms by (intro mult_right_mono) simp_all
  finally show ?thesis by simp
qed

lemma arcsin_abs_sin:
  assumes "\<bar>x\<bar> \<le> pi / 2"
  shows "arcsin (sqrt ((sin x)\<^sup>2)) = \<bar>x\<bar>"
proof -
  have "sqrt ((sin x)\<^sup>2) = \<bar>sin x\<bar>" by simp
  also have "\<dots> = sin \<bar>x\<bar>"
  proof (cases "0 \<le> x")
    case True
    then have "0 \<le> sin x" using assms by (intro sin_ge_zero) (auto simp: abs_le_iff intro: order_trans)
    then show ?thesis using True by simp
  next
    case False
    then have "0 \<le> sin (- x)" using assms by (intro sin_ge_zero) auto
    then show ?thesis using False by simp
  qed
  finally show ?thesis using assms by (simp add: arcsin_sin)
qed

text \<open>Along a meridian or along the equator the haversine distance is the arc length.\<close>

lemma calcDist_same_lon:
  assumes "\<bar>lat2 - lat1\<bar> \<le> 180"
  shows "calcDist lat1 lo lat2 lo = 6371 * (\<bar>lat2 - lat1\<bar> * pi / 180)"
proof -
  define x where "x = (lat2 - lat1) * pi / 180 / 2"
  have ax: "\<bar>x\<bar> \<le> pi / 2"
    using assms unfolding x_def by (intro half_angle_bound) simp
  have "calcDist lat1 lo lat2 lo = 6371 * 2 * Math_atan2 (sqrt ((sin x)\<^sup>2)) (sqrt (1 - (sin x)\<^sup>2))"
    by (simp add: calcDist_def Let_def x_def)
  also have "\<dots> = 6371 * 2 * arcsin (sqrt ((sin x)\<^sup>2))"
    by (simp only: atan2_arcsin [OF zero_le_power2 sin_squared_le_one])
  also have "\<dots> = 6371 * 2 * \<bar>x\<bar>" by (simp only: arcsin_abs_sin [OF ax])
  also have "\<dots> = 6371 * (\<bar>lat2 - lat1\<bar> * pi / 180)" by (simp add: x_def abs_mult)
  finally show ?thesis .
qed

lemma calcDist_equator:
  assumes "\<bar>lon2 - lon1\<bar> \<le> 180"
  shows "calcDist 0 lon1 0 lon2 = 6371 * (\<bar>lon2 - lon1\<bar> * pi / 180)"
proof -
  define x where "x = (lon2 - lon1) * pi / 180 / 2"
  have ax: "\<bar>x\<bar> \<le> pi / 2"
    using assms unfolding x_def by (intro half_angle_bound) simp
  have "calcDist 0 lon1 0 lon2 = 6371 * 2 * Math_atan2 (sqrt ((sin x)\<^sup>2)) (sqrt (1 - (sin x)\<^sup>2))"
    by (simp add: calcDist_def Let_def x_def)
  also have "\<dots> = 6371 * 2 * arcsin (sqrt ((sin x)\<^sup>2))"
    by (simp only: atan2_arcsin [OF zero_le_power2 sin_squared_le_one])
  also have "\<dots> = 6371 * 2 * \<bar>x\<bar>" by (simp only: arcsin_abs_sin [OF ax])
  also have "\<dots> = 6371 * (\<bar>lon2 - lon1\<bar> * pi / 180)" by (simp add: x_def abs_mult)
  finally show ?thesis .
qed

lemma cos_latitude_ge_zero:
  assumes "\<bar>l\<bar> \<le> 90"
  shows "0 \<le> cos (l * pi / 180)"
proof -
  have "\<bar>l * pi / 180\<bar> = \<bar>l\<bar> * (pi / 180)" by (simp add: abs_mult)
  also have "\<dots> \<le> 90 * (pi / 180)" using assms by (intro mult_right_mono) simp_all
  finally have "\<bar>l * pi / 180\<bar> \<le> pi / 2" by simp
  then show ?thesis by (intro cos_ge_zero) (simp_all add: abs_le_iff)
qed

text \<open>Any two points are at least as far apart as their latitudes are.\<close>

lemma calcDist_ge_dLat:
  assumes "\<bar>lat1\<bar> \<le> 90" "\<bar>lat2\<bar> \<le> 90"
  shows "6371 * (\<bar>lat2 - lat1\<bar> * pi / 180) \<le> calcDist lat1 lon1 lat2 lon2"
proof -
  define x where "x = (lat2 - lat1) * pi / 180 / 2"
  define c where "c = cos (lat1 * pi / 180) * cos (lat2 * pi / 180)"
  define y where "y = (lon2 - lon1) * pi / 180 / 2"
  define a where "a = (sin x)\<^sup>2 + c * (sin y)\<^sup>2"
  have ax: "\<bar>x\<bar> \<le> pi / 2"
    using assms unfolding x_def by (intro half_angle_bound) simp
  have c1: "0 \<le> cos (lat1 * pi / 180)"
    using assms(1) by (rule cos_latitude_ge_zero)
  have c2: "0 \<le> cos (lat2 * pi / 180)"
    using assms(2) by (rule cos_latitude_ge_zero)
  have c0: "0 \<le> c" using c1 c2 by (simp add: c_def)
  have lo: "(sin x)\<^sup>2 \<le> a" using c0 by (simp add: a_def)
  have "0 \<le> (sin x)\<^sup>2" by simp
  with lo have a0: "0 \<le> a" by linarith
  have "c * (sin y)\<^sup>2 \<le> c * 1"
    using c0 by (intro mult_left_mono sin_squared_le_one)
  then have "c * (sin y)\<^sup>2 \<le> c" by simp
  moreover have "(sin x)\<^sup>2 = (1 - cos (2 * x)) / 2"
    by (simp add: cos_double_sin)
  moreover have "cos (2 * x) = cos (lat2 * pi / 180 - lat1 * pi / 180)"
  proof -
    have "2 * x = lat2 * pi / 180 - lat1 * pi / 180" by (simp add: x_def diff_divide_distrib left_diff_distrib right_diff_distrib mult.commute)
    then show ?thesis by simp
  qed
  moreover have "c = (cos (lat2 * pi / 180 - lat1 * pi / 180) + cos (lat2 * pi / 180 + lat1 * pi / 180)) / 2"
    by (simp add: c_def cos_diff cos_add)
  moreover have "cos (lat2 * pi / 180 + lat1 * pi / 180) \<le> 1" by simp
  ultimately have a1: "a \<le> 1" unfolding a_def by argo
  have "calcDist lat1 lon1 lat2 lon2 = 6371 * 2 * Math_atan2 (sqrt a) (sqrt (1 - a))"
    by (simp add: calcDist_def Let_def a_def x_def y_def c_def)
  also have "\<dots> = 6371 * 2 * arcsin (sqrt a)"
    by (simp only: atan2_arcsin [OF a0 a1])
  finally have eq: "calcDist lat1 lon1 lat2 lon2 = 6371 * 2 * arcsin (sqrt a)" .
  have "sqrt ((sin x)\<^sup>2) \<le> sqrt a" using lo by (rule real_sqrt_le_mono)
  moreover have "sqrt a \<le> 1" using a1 by simp
  moreover have "- 1 \<le> sqrt ((sin x)\<^sup>2)" by simp
  ultimately have "arcsin (sqrt ((sin x)\<^sup>2)) \<le> arcsin (sqrt a)"
    by (intro arcsin_le_arcsin)
  then have "\<bar>x\<bar> \<le> arcsin (sqrt a)" by (simp only: arcsin_abs_sin [OF ax])
  moreover have "6371 * (\<bar>lat2 - lat1\<bar> * pi / 180) = 6371 * 2 * \<bar>x\<bar>"
    by (simp add: x_def abs_mult)
  ultimately show ?thesis using eq by simp
qed


section \<open>What a position sample leaves alone\<close>

lemma trackWaypoint_frame:
  "isOffRoute (trackWaypoint p st v la lo acc) = isOffRoute acc"
  "showRecalculatePrompt (trackWaypoint p st v la lo acc) = showRecalculatePrompt acc"
  "lastRecalculateTime (trackWaypoint p st v la lo acc) = lastRecalculateTime acc"
  "drivingTime (trackWaypoint p st v la lo acc) = drivingTime acc"
  "speed (trackWaypoint p st v la lo acc) = speed acc"
  by (simp_all add: trackWaypoint_def Let_def split: option.splits prod.splits)

lemma trackFinal_frame:
  "isOffRoute (trackFinal p v la lo acc) = isOffRoute acc"
  "showRecalculatePrompt (trackFinal p v la lo acc) = showRecalculatePrompt acc"
  "lastRecalculateTime (trackFinal p v la lo acc) = lastRecalculateTime acc"
  "currentWaypointIndex (trackFinal p v la lo acc) = currentWaypointIndex acc"
  "distanceToNextWaypoint (trackFinal p v la lo acc) = distanceToNextWaypoint acc"
  "timeToNextWaypoint (trackFinal p v la lo acc) = timeToNextWaypoint acc"
  "speed (trackFinal p v la lo acc) = speed acc"
  by (simp_all add: trackFinal_def Let_def split: option.splits prod.splits)

lemma trackOffRoute_frame:
  "lastRecalculateTime (trackOffRoute p st la lo acc) = lastRecalculateTime acc"
  "currentWaypointIndex (trackOffRoute p st la lo acc) = currentWaypointIndex acc"
  "remainingTime (trackOffRoute p st la lo acc) = remainingTime acc"
  "timeToNextWaypoint (trackOffRoute p st la lo acc) = timeToNextWaypoint acc"
  "progressPercent (trackOffRoute p st la lo acc) = progressPercent acc"
  "distanceToNextWaypoint (trackOffRoute p st la lo acc) = distanceToNextWaypoint acc"
  "speed (trackOffRoute p st la lo acc) = speed acc"
  by (simp_all add: trackOffRoute_def Let_def)

lemma trackOffRoute_isOffRoute:
  "isOffRoute (trackOffRoute p st la lo acc)
     = ((checkIfOffRoute (route p) la lo \<and> \<not> isOffRoute st) \<or> isOffRoute acc)"
  "showRecalculatePrompt (trackOffRoute p st la lo acc)
     = ((checkIfOffRoute (route p) la lo \<and> \<not> isOffRoute st) \<or> showRecalculatePrompt acc)"
  by (auto simp add: trackOffRoute_def Let_def)

lemma processSample_isOffRoute:
  "isOffRoute (processSample p st pos)
     = (isOffRoute st \<or> checkIfOffRoute (route p) (latitude pos) (longitude pos))"
proof -
  have "isOffRoute (processSample p st pos)
     = ((checkIfOffRoute (route p) (latitude pos) (longitude pos) \<and> \<not> isOffRoute st)
          \<or> isOffRoute st)"
    by (simp add: processSample_def Let_def trackOffRoute_isOffRoute trackWaypoint_frame
        trackFinal_frame split: option.split)
  then show ?thesis by blast
qed






section \<open>More facts about the geo math and the numbers\<close>

lemma metres_on_equator:
  assumes "0 \<le> m" "m \<le> 1000000"
  shows "calcDist 0 (x + degreesOfMetres m) 0 x * 1000 = m"
proof -
  have "m \<le> 6371000 * pi" using assms pi_ge_two by linarith
  then have "m * 180 / (6371000 * pi) \<le> 180" by (simp add: pos_divide_le_eq)
  then have b: "\<bar>x - (x + degreesOfMetres m)\<bar> \<le> 180"
    using assms by (simp add: degreesOfMetres_def)
  have "\<bar>x - (x + degreesOfMetres m)\<bar> = degreesOfMetres m"
    using assms by (simp add: degreesOfMetres_def)
  then show ?thesis
    using calcDist_equator [OF b] by (simp add: degreesOfMetres_def)
qed

lemma metres_on_meridian:
  assumes "0 \<le> m" "m \<le> 1000000"
  shows "calcDist (x + degreesOfMetres m) lo x lo * 1000 = m"
proof -
  have "m \<le> 6371000 * pi" using assms pi_ge_two by linarith
  then have "m * 180 / (6371000 * pi) \<le> 180" by (simp add: pos_divide_le_eq)
  then have b: "\<bar>x - (x + degreesOfMetres m)\<bar> \<le> 180"
    using assms by (simp add: degreesOfMetres_def)
  have "\<bar>x - (x + degreesOfMetres m)\<bar> = degreesOfMetres m"
    using assms by (simp add: degreesOfMetres_def)
  then show ?thesis
    using calcDist_same_lon [OF b] by (simp add: degreesOfMetres_def)
qed

lemma far_from_meridian_ends:
  "50 < calcDist 0 lo (- 0.5) 8 * 1000" "50 < calcDist 0 lo 0.5 8 * 1000"
proof -
  have "(50 :: real) < 6371 * (0.5 * 2 / 180) * 1000" by simp
  also have "\<dots> \<le> 6371 * (0.5 * pi / 180) * 1000" using pi_ge_two by simp
  finally have far: "50 < 6371 * (0.5 * pi / 180) * 1000" .
  have "6371 * (\<bar>- 0.5 - 0\<bar> * pi / 180) \<le> calcDist 0 lo (- 0.5) 8"
    by (rule calcDist_ge_dLat) simp_all
  then show "50 < calcDist 0 lo (- 0.5) 8 * 1000" using far by simp
  have "6371 * (\<bar>0.5 - 0\<bar> * pi / 180) \<le> calcDist 0 lo 0.5 8"
    by (rule calcDist_ge_dLat) simp_all
  then show "50 < calcDist 0 lo 0.5 8 * 1000" using far by simp
qed

lemma scanRoute_iff:
  "scanRoute la lo r minDist
     = ((\<forall>v \<in> set r. 50 < calcDist la lo (fst v) (snd v) * 1000)
        \<and> (case minDist of None \<Rightarrow> True | Some m \<Rightarrow> 50 < m))"
proof (induction r arbitrary: minDist)
  case Nil
  then show ?case by simp
next
  case (Cons v r)
  show ?case
    by (cases minDist) (auto simp add: Let_def Cons.IH)
qed

lemma checkIfOffRoute_iff:
  "checkIfOffRoute (Some r) la lo
     = (r \<noteq> [] \<and> (\<forall>v \<in> set r. 50 < calcDist la lo (fst v) (snd v) * 1000))"
  by (simp add: checkIfOffRoute_def scanRoute_iff)

lemma Math_round_less:
  assumes "x + 1 \<le> y"
  shows "Math_round x < Math_round y"
proof -
  have "floor (x + 1 / 2) + 1 = floor (x + 1 / 2 + of_int 1)" by (simp only: floor_add_int)
  also have "\<dots> \<le> floor (y + 1 / 2)" using assms by (intro floor_mono) simp
  finally have "floor (x + 1 / 2) < floor (y + 1 / 2)" by simp
  then show ?thesis by (simp add: Math_round_def)
qed

lemma example_distance:
  "calcDist 49.9 8 50.1 8 = 6371 * (0.2 * pi / 180)"
  using calcDist_same_lon [of "50.1" "49.9" 8] by simp

lemma example_distance_ge: "14 \<le> calcDist 49.9 8 50.1 8"
proof -
  have "14 \<le> 6371 * (0.2 * 2 / 180 :: real)" by simp
  also have "\<dots> \<le> 6371 * (0.2 * pi / 180)" using pi_ge_two by simp
  finally show ?thesis by (simp only: example_distance)
qed

lemma js_rem_small:
  assumes "0 \<le> x" "x < 360"
  shows "js_rem x 360 = x"
proof -
  have "floor (x / 360) = 0" using assms by (intro floor_unique) simp_all
  then show ?thesis using assms by (simp add: js_rem_def Math_trunc_def)
qed

lemma js_rem_once:
  assumes "360 \<le> x" "x < 720"
  shows "js_rem x 360 = x - 360"
proof -
  have "floor (x / 360) = 1" using assms by (intro floor_unique) simp_all
  then show ?thesis using assms by (simp add: js_rem_def Math_trunc_def)
qed

section \<open>What a position sample computes\<close>

lemma processSample_unfold:
  "processSample p st pos =
      trackOffRoute p st (latitude pos) (longitude pos)
        (trackFinal p (if 10 < speed st then speed st else 70) (latitude pos) (longitude pos)
          (trackWaypoint p st (if 10 < speed st then speed st else 70) (latitude pos) (longitude pos)
             ((case pos_speed pos of
       None \<Rightarrow> (case pos_heading pos of
                  None \<Rightarrow> st\<lparr>currentPosition := Some \<lparr>lat = latitude pos, lon = longitude pos\<rparr>\<rparr>
                | Some h \<Rightarrow> st\<lparr>currentPosition := Some \<lparr>lat = latitude pos, lon = longitude pos\<rparr>\<rparr>\<lparr>heading := h\<rparr>)
     | Some s \<Rightarrow> (case pos_heading pos of
                  None \<Rightarrow> st\<lparr>currentPosition := Some \<lparr>lat = latitude pos, lon = longitude pos\<rparr>\<rparr>
                | Some h \<Rightarrow> st\<lparr>currentPosition := Some \<lparr>lat = latitude pos, lon = longitude pos\<rparr>\<rparr>\<lparr>heading := h\<rparr>)
                    \<lparr>speed := Math_round (s * 3.6)\<rparr>))))"
  by (simp add: processSample_def Let_def)

lemma exampleStop_destinations:
  "allDestinations exampleStopProps =
     [\<lparr>dest_name = ''Rasthof'', dest_lat = Some 50.05, dest_lon = Some 8, dest_isRestStop = True\<rparr>,
      \<lparr>dest_name = ''Ziel'', dest_lat = Some 50.1, dest_lon = Some 8, dest_isRestStop = False\<rparr>]"
  by (simp add: allDestinations_def exampleStopProps_def exampleProps_def num_or_def str_or_def)

lemma trackFinal_eq:
  assumes "endCoords p = Some e" "totalDistance p = Some td" "td \<noteq> 0"
  shows "trackFinal p v la lo acc =
           acc\<lparr>remainingDistance := max 0 (calcDist la lo (lat e) (lon e)),
               progressPercent := min 100 ((td - calcDist la lo (lat e) (lon e)) / td * 100),
               remainingTime := Math_round (calcDist la lo (lat e) (lon e) / v * 60)\<rparr>"
  using assms by (simp add: trackFinal_def Let_def)

lemma processSample_final:
  assumes "endCoords p = Some e" "totalDistance p = Some td" "td \<noteq> 0"
  shows "progressPercent (processSample p st pos)
           = min 100 ((td - calcDist (latitude pos) (longitude pos) (lat e) (lon e)) / td * 100)"
    and "remainingTime (processSample p st pos)
           = Math_round (calcDist (latitude pos) (longitude pos) (lat e) (lon e)
                          / (if 10 < speed st then speed st else 70) * 60)"
  by (simp_all only: processSample_unfold trackOffRoute_frame trackFinal_eq [OF assms]) simp_all

lemma allDestinations_truthy:
  "d \<in> set (allDestinations p) \<Longrightarrow> truthy (dest_lat d) \<and> truthy (dest_lon d)"
  unfolding allDestinations_def set_filter by blast

lemma currentDestination_in_set:
  "currentDestination ds i = Some d \<Longrightarrow> d \<in> set ds"
  by (auto simp add: currentDestination_def split: if_splits)

lemma trackWaypoint_time:
  assumes "currentDestination (allDestinations p) (currentWaypointIndex st) = Some d"
    and "dest_lat d = Some dla" "dest_lon d = Some dlo"
  shows "timeToNextWaypoint (trackWaypoint p st v la lo acc)
           = Math_round (calcDist la lo dla dlo / v * 60)"
proof -
  have "truthy (dest_lat d) \<and> truthy (dest_lon d)"
    using assms(1) by (intro allDestinations_truthy currentDestination_in_set)
  then have "dla \<noteq> 0" "dlo \<noteq> 0" using assms(2,3) by simp_all
  then show ?thesis using assms by (simp add: trackWaypoint_def Let_def)
qed

lemma processSample_next:
  assumes "currentDestination (allDestinations p) (currentWaypointIndex st) = Some d"
    and "dest_lat d = Some dla" "dest_lon d = Some dlo"
  shows "timeToNextWaypoint (processSample p st pos)
           = Math_round (calcDist (latitude pos) (longitude pos) dla dlo
                          / (if 10 < speed st then speed st else 70) * 60)"
  by (simp only: processSample_unfold trackOffRoute_frame trackFinal_frame
        trackWaypoint_time [OF assms])

lemma exampleProps_final:
  "endCoords exampleProps = Some \<lparr>lat = 50.1, lon = 8\<rparr>"
  "totalDistance exampleProps = Some 12"
  by (simp_all add: exampleProps_def)

lemma processSample_speed:
  "speed (processSample p st pos)
     = (case pos_speed pos of None \<Rightarrow> speed st | Some s \<Rightarrow> Math_round (s * 3.6))"
  by (simp add: processSample_unfold trackOffRoute_frame trackFinal_frame trackWaypoint_frame
        split: option.split)




section \<open>The driving time and the break warning along a session\<close>

lemma trackWaypoint_break:
  "showBreakWarning (trackWaypoint p st v la lo acc) = showBreakWarning acc"
  by (simp add: trackWaypoint_def Let_def split: option.splits prod.splits)

lemma trackFinal_break:
  "showBreakWarning (trackFinal p v la lo acc) = showBreakWarning acc"
  "drivingTime (trackFinal p v la lo acc) = drivingTime acc"
  by (simp_all add: trackFinal_def Let_def split: option.splits prod.splits)

lemma trackOffRoute_break:
  "showBreakWarning (trackOffRoute p st la lo acc) = showBreakWarning acc"
  "drivingTime (trackOffRoute p st la lo acc) = drivingTime acc"
  by (simp_all add: trackOffRoute_def Let_def)

lemma processSample_break:
  "showBreakWarning (processSample p st pos) = showBreakWarning st"
  "drivingTime (processSample p st pos) = drivingTime st"
  by (simp_all add: processSample_unfold trackOffRoute_break trackFinal_break
        trackWaypoint_break trackWaypoint_frame split: option.split)

lemma handleRecalculate_break:
  "showBreakWarning (fst (handleRecalculate p st now)) = showBreakWarning st"
  "drivingTime (fst (handleRecalculate p st now)) = drivingTime st"
  by (simp_all add: handleRecalculate_def)

lemma handleEvent_drivingTime:
  "drivingTime (handleEvent p st e) = drivingTime st + (if e = DrivingTick then 1 else 0)"
  by (cases e)
     (simp_all add: handleEvent_def processSample_break handleRecalculate_break
        drivingTick_def Let_def)

lemma handleEvent_showBreakWarning:
  "showBreakWarning (handleEvent p st e)
     = (if e = DrivingTick \<and> drivingTime st + 1 = 240 then True
        else if e = UnderstoodButton then False
        else showBreakWarning st)"
  by (cases e)
     (simp_all add: handleEvent_def processSample_break handleRecalculate_break
        drivingTick_def Let_def)

lemma sessionTrace_nonempty: "sessionTrace st es \<noteq> []"
  by (cases es) auto

lemma sessionTrace_head:
  "sessionTrace st es = st # tl (sessionTrace st es)"
  by (cases es) auto

lemma sessionTrace_last_drivingTime:
  "drivingTime (last (sessionTrace st es))
     = drivingTime st + count_list (map snd es) DrivingTick"
proof (induction es arbitrary: st)
  case Nil
  then show ?case by simp
next
  case (Cons pe es)
  obtain p e where pe: "pe = (p, e)" by (cases pe)
  have ne: "sessionTrace (handleEvent p st e) es \<noteq> []"
    by (rule sessionTrace_nonempty)
  show ?case
    using Cons.IH [of "handleEvent p st e"] ne
    by (simp add: pe handleEvent_drivingTime)
qed

lemma breakWarningsRaised_trace:
  assumes "drivingTime st < 240 \<longrightarrow> \<not> showBreakWarning st"
  shows "breakWarningsRaised (sessionTrace st es)
           = (if drivingTime st < 240
                 \<and> 240 \<le> drivingTime st + count_list (map snd es) DrivingTick
              then 1 else 0)"
  using assms
proof (induction es arbitrary: st)
  case Nil
  then show ?case by simp
next
  case (Cons pe es)
  obtain p e where pe: "pe = (p, e)" by (cases pe)
  define st' where "st' = handleEvent p st e"
  have d: "drivingTime st' = drivingTime st + (if e = DrivingTick then 1 else 0)"
    by (simp add: st'_def handleEvent_drivingTime)
  have w: "showBreakWarning st'
     = (if e = DrivingTick \<and> drivingTime st + 1 = 240 then True
        else if e = UnderstoodButton then False
        else showBreakWarning st)"
    by (simp add: st'_def handleEvent_showBreakWarning)
  have inv: "drivingTime st' < 240 \<longrightarrow> \<not> showBreakWarning st'"
    using Cons.prems d w by (auto split: if_splits)
  obtain rest where tr: "sessionTrace st' es = st' # rest"
    using sessionTrace_head [of st' es] by blast
  have "breakWarningsRaised (sessionTrace st (pe # es))
      = (if \<not> showBreakWarning st \<and> showBreakWarning st' then 1 else 0)
          + breakWarningsRaised (sessionTrace st' es)"
    by (simp add: pe st'_def [symmetric] tr)
  also have "breakWarningsRaised (sessionTrace st' es)
      = (if drivingTime st' < 240
            \<and> 240 \<le> drivingTime st' + count_list (map snd es) DrivingTick
         then 1 else 0)"
    by (rule Cons.IH [OF inv])
  finally show ?case
    using Cons.prems d w by (auto simp add: pe split: if_splits)
qed

lemma count_list_replicate_same: "count_list (replicate n x) x = n"
  by (induction n) simp_all

lemma handleEvent_break_invariant:
  assumes "drivingTime st < 240 \<longrightarrow> \<not> showBreakWarning st"
  shows "drivingTime (handleEvent p st e) < 240 \<longrightarrow> \<not> showBreakWarning (handleEvent p st e)"
  using assms
  by (auto simp add: handleEvent_drivingTime handleEvent_showBreakWarning split: if_splits)

lemma sessionTrace_break_invariant:
  assumes "drivingTime st < 240 \<longrightarrow> \<not> showBreakWarning st"
    and "s \<in> set (sessionTrace st es)"
  shows "drivingTime s < 240 \<longrightarrow> \<not> showBreakWarning s"
  using assms
proof (induction es arbitrary: st)
  case Nil
  then show ?case by simp
next
  case (Cons pe es)
  obtain p e where pe: "pe = (p, e)" by (cases pe)
  from Cons.prems(2) have "s = st \<or> s \<in> set (sessionTrace (handleEvent p st e) es)"
    by (simp add: pe)
  then show ?case
  proof
    assume "s = st"
    then show ?thesis using Cons.prems(1) by simp
  next
    assume "s \<in> set (sessionTrace (handleEvent p st e) es)"
    then show ?thesis
      using Cons.IH [OF handleEvent_break_invariant [OF Cons.prems(1)]] by blast
  qed
qed

lemma raised_by_the_tick_to_240:
  assumes "drivingTime st < 240 \<longrightarrow> \<not> showBreakWarning st"
  shows "(\<not> showBreakWarning st \<and> showBreakWarning (handleEvent p st e))
           = (e = DrivingTick \<and> drivingTime st + 1 = 240)"
  using assms by (auto simp add: handleEvent_showBreakWarning split: if_splits)

lemma initialSession_break:
  "drivingTime (initialSession sc td du) = 0"
  "\<not> showBreakWarning (initialSession sc td du)"
  by (simp_all add: initialSession_def)

section \<open>The waypoint index along a sequence of samples\<close>



section \<open>Claims\<close>

subsection \<open>C1: the off-route threshold\<close>

text \<open>
  C1 as stated fails. The route runs along the meridian of 8 degrees east from
  half a degree south to half a degree north; the point (0, 8) lies on it, half way
  between the two vertices (the distances to them add up to the route's length). The
  sample lies on the equator, which crosses that meridian at a right angle, exactly 49 m
  east of (0, 8). The session is not flagged, and the sample sets \<open>isOffRoute\<close>: both
  vertices are more than 55 km away, and the vertices are all that \<^verbatim>\<open>checkIfOffRoute\<close>
  measures against.
\<close>

theorem offroute_49m_midsegment_flagged:
  "calcDist 0 8 (- 0.5) 8 + calcDist 0 8 0.5 8 = calcDist (- 0.5) 8 0.5 8
   \<and> calcDist 0 (8 + degreesOfMetres 49) 0 8 * 1000 = 49
   \<and> \<not> isOffRoute meridianSession
   \<and> isOffRoute (processSample meridianProps meridianSession
         (sampleAt 0 (8 + degreesOfMetres 49)))"
proof -
  have "calcDist 0 8 (- 0.5) 8 + calcDist 0 8 0.5 8 = calcDist (- 0.5) 8 0.5 8"
    using calcDist_same_lon [of "- 0.5" 0 8] calcDist_same_lon [of "0.5" 0 8]
      calcDist_same_lon [of "0.5" "- 0.5" 8]
    by simp
  moreover have "calcDist 0 (8 + degreesOfMetres 49) 0 8 * 1000 = 49"
    by (rule metres_on_equator) simp_all
  moreover have "\<not> isOffRoute meridianSession"
    by (simp add: meridianSession_def initialSession_def)
  moreover have "isOffRoute (processSample meridianProps meridianSession
         (sampleAt 0 (8 + degreesOfMetres 49)))"
    using far_from_meridian_ends [of "8 + degreesOfMetres 49"]
    by (simp add: processSample_isOffRoute checkIfOffRoute_iff meridianProps_def sampleAt_def)
  ultimately show ?thesis by (intro conjI)
qed

text \<open>
  C1, as the code has it. On a route of two points, a position sample sets \<open>isOffRoute\<close>
  in a session not yet flagged exactly when its haversine distance to each of the two
  vertices is more than 50 m. The segment between the vertices is not examined.
\<close>

theorem offroute_two_point_route:
  assumes "route p = Some [v1, v2]" "\<not> isOffRoute st"
  shows "isOffRoute (processSample p st pos)
           = (50 < calcDist (latitude pos) (longitude pos) (fst v1) (snd v1) * 1000
              \<and> 50 < calcDist (latitude pos) (longitude pos) (fst v2) (snd v2) * 1000)"
  using assms
  by (simp add: processSample_isOffRoute checkIfOffRoute_iff)

text \<open>
  A sample 51 m beside the middle of the meridian route is flagged; a sample 49 m beside
  the first vertex of the equator route, on the meridian through it, is not.
\<close>

theorem offroute_two_point_route_witness:
  "calcDist 0 (8 + degreesOfMetres 51) 0 8 * 1000 = 51
   \<and> isOffRoute (processSample meridianProps meridianSession
         (sampleAt 0 (8 + degreesOfMetres 51)))
   \<and> calcDist (0 + degreesOfMetres 49) 8 0 8 * 1000 = 49
   \<and> \<not> isOffRoute (processSample equatorProps equatorSession
         (sampleAt (0 + degreesOfMetres 49) 8))"
proof -
  have n1: "\<not> isOffRoute meridianSession"
    by (simp add: meridianSession_def initialSession_def)
  have n2: "\<not> isOffRoute equatorSession"
    by (simp add: equatorSession_def initialSession_def)
  have r1: "route meridianProps = Some [(- 0.5, 8), (0.5, 8)]" by (simp add: meridianProps_def)
  have r2: "route equatorProps = Some [(0, 8), (0, 9)]" by (simp add: equatorProps_def)
  have d51: "calcDist 0 (8 + degreesOfMetres 51) 0 8 * 1000 = 51"
    by (rule metres_on_equator) simp_all
  have d49: "calcDist (0 + degreesOfMetres 49) 8 0 8 * 1000 = 49"
    by (rule metres_on_meridian) simp_all
  have "isOffRoute (processSample meridianProps meridianSession
         (sampleAt 0 (8 + degreesOfMetres 51)))"
    using offroute_two_point_route [OF r1 n1, of "sampleAt 0 (8 + degreesOfMetres 51)"]
      far_from_meridian_ends [of "8 + degreesOfMetres 51"]
    by (simp add: sampleAt_def)
  moreover have "\<not> isOffRoute (processSample equatorProps equatorSession
         (sampleAt (0 + degreesOfMetres 49) 8))"
    using offroute_two_point_route [OF r2 n2, of "sampleAt (0 + degreesOfMetres 49) 8"] d49
    by (simp add: sampleAt_def)
  ultimately show ?thesis using d51 d49 by (intro conjI)
qed

subsection \<open>C2: a recalculation that fails\<close>

text \<open>
  C2 as stated fails. The session is flagged off-route, the cooldown is over, the
  button is pressed at time 40000 and the call is made with the current position; the
  routing service rejects the request. After that \<open>isOffRoute\<close> is false:
  \<^verbatim>\<open>handleRecalculate\<close> clears it before it calls \<^verbatim>\<open>onRecalculateRoute\<close>, and nothing sets it
  back when the call fails.
\<close>

theorem recalculation_failure_clears_flag:
  "isOffRoute (exampleSession\<lparr>isOffRoute := True, showRecalculatePrompt := True\<rparr>)
   \<and> snd (handleRecalculate exampleProps
            (exampleSession\<lparr>isOffRoute := True, showRecalculatePrompt := True\<rparr>) 40000)
       = Some \<lparr>lat = 50, lon = 8\<rparr>
   \<and> recalculateBody examplePlanner \<lparr>lat = 50, lon = 8\<rparr> Rejected = Inl RequestFailed
   \<and> \<not> isOffRoute (fst (recalculateTrigger exampleProps examplePlanner
            (exampleSession\<lparr>isOffRoute := True, showRecalculatePrompt := True\<rparr>) 40000 Rejected))"
  by (simp add: handleRecalculate_def recalculateTrigger_def onRecalculateRoute_def
        recalculateBody_def exampleProps_def examplePlanner_def exampleSession_def
        initialSession_def)

text \<open>
  C2, as the code has it. When a trigger is accepted and the routing call then fails, the
  callback catches the failure: it returns, shows the info and the error toast, and leaves
  the planner's state, and with it the route, as it was. The session has the new
  \<open>lastRecalculateTime\<close>, and \<open>isOffRoute\<close> and the prompt are cleared, as after any accepted
  trigger. Position samples are processed as before, and the next one sets \<open>isOffRoute\<close>
  again exactly when it is off the unchanged route.
\<close>

theorem recalculation_failure_semantics:
  assumes "hasOnRecalculateRoute p" "currentPosition st = Some c"
    and "30000 < now - lastRecalculateTime st"
    and "recalculateBody pl c outcome = Inl err"
  shows "recalculateTrigger p pl st now outcome
           = (st\<lparr>lastRecalculateTime := now, isOffRoute := False,
                 showRecalculatePrompt := False\<rparr>, pl, [ToastInfo, ToastError])
         \<and> isOffRoute (processSample p
               (st\<lparr>lastRecalculateTime := now, isOffRoute := False,
                   showRecalculatePrompt := False\<rparr>) pos)
             = checkIfOffRoute (route p) (latitude pos) (longitude pos)"
  using assms
  by (simp add: recalculateTrigger_def handleRecalculate_def onRecalculateRoute_def
        processSample_isOffRoute)

theorem recalculation_failure_semantics_witness:
  "recalculateTrigger exampleProps examplePlanner
       (exampleSession\<lparr>isOffRoute := True, showRecalculatePrompt := True\<rparr>) 40000 Rejected
     = (exampleSession\<lparr>isOffRoute := True, showRecalculatePrompt := True\<rparr>
          \<lparr>lastRecalculateTime := 40000, isOffRoute := False, showRecalculatePrompt := False\<rparr>,
        examplePlanner, [ToastInfo, ToastError])"
proof -
  have a: "hasOnRecalculateRoute exampleProps" by (simp add: exampleProps_def)
  have b: "currentPosition (exampleSession\<lparr>isOffRoute := True, showRecalculatePrompt := True\<rparr>)
             = Some \<lparr>lat = 50, lon = 8\<rparr>"
    by (simp add: exampleSession_def initialSession_def)
  have c: "30000 < 40000 - lastRecalculateTime
             (exampleSession\<lparr>isOffRoute := True, showRecalculatePrompt := True\<rparr>)"
    by (simp add: exampleSession_def initialSession_def)
  have d: "recalculateBody examplePlanner \<lparr>lat = 50, lon = 8\<rparr> Rejected = Inl RequestFailed"
    by (simp add: recalculateBody_def examplePlanner_def)
  show ?thesis
    using recalculation_failure_semantics [OF a b c d] by simp
qed

subsection \<open>C3: the bounds of the progress\<close>

text \<open>
  C3 fails on the code. The route is 12 km long and the sample lies 22 km from the
  destination, on the far side of the start. The code bounds the progress by 100 from
  above and by nothing from below, so the sample leaves \<open>progressPercent\<close> negative.
\<close>

theorem progress_negative_when_driving_away:
  "progressPercent (processSample exampleProps exampleSession exampleSlowSample) < 0"
proof -
  have "progressPercent (processSample exampleProps exampleSession exampleSlowSample)
      = min 100 ((12 - calcDist 49.9 8 50.1 8) / 12 * 100)"
    using processSample_final(1) [OF exampleProps_final, of exampleSession exampleSlowSample]
    by (simp add: exampleSlowSample_def)
  also have "\<dots> \<le> (12 - calcDist 49.9 8 50.1 8) / 12 * 100" by (rule min.cobounded2)
  also have "\<dots> < 0" using example_distance_ge by simp
  finally show ?thesis .
qed

subsection \<open>C4: the off-route flag latches\<close>



subsection \<open>C5: the cooldown\<close>



subsection \<open>C6: the heading across the wraparound\<close>

text \<open>
  C6 as stated fails. From 359 degrees to a raw heading of 2 degrees the short arc
  is exactly 3 degrees, which is inside the deadband: the effect does not move the
  smoothed heading at all.
\<close>

theorem heading_359_to_2_unchanged:
  "smoothHeadingEffect True (Some 2) 359 = 359"
  by (simp add: smoothHeadingEffect_def Let_def)

text \<open>
  C6, as the code has it. With both headings in [0, 360) and the raw heading more than
  180 degrees below the smoothed one, the short arc runs forward through 0 and is
  \<open>360 - sm + h\<close> long. If it is at most 3 degrees the smoothed heading stays; otherwise
  it moves forward by 0.15 times the arc, 360 is taken off when that passes 360, and the
  result lies in [0, 360).
\<close>

theorem heading_wraparound_forward:
  assumes "0 \<le> h" "h < 360" "0 \<le> sm" "sm < 360" "180 < sm - h"
  shows "smoothHeadingEffect True (Some h) sm
           = (if 360 - sm + h \<le> 3 then sm
              else if sm + (360 - sm + h) * 0.15 < 360 then sm + (360 - sm + h) * 0.15
              else sm + (360 - sm + h) * 0.15 - 360)
         \<and> 0 \<le> smoothHeadingEffect True (Some h) sm
         \<and> smoothHeadingEffect True (Some h) sm < 360"
proof (cases "360 - sm + h \<le> 3")
  case True
  then show ?thesis using assms by (simp add: smoothHeadingEffect_def Let_def)
next
  case False
  define t where "t = sm + (360 - sm + h) * 0.15"
  have teq: "t = sm + (360 - sm + h) * 3 / 20" by (simp add: t_def)
  have t0: "0 \<le> t" using assms unfolding teq by argo
  have t1: "t < 720" using assms unfolding teq by argo
  have eff: "smoothHeadingEffect True (Some h) sm = js_rem (js_rem t 360 + 360) 360"
    using assms False by (simp add: smoothHeadingEffect_def Let_def t_def)
  show ?thesis
  proof (cases "t < 360")
    case True
    then have "js_rem t 360 = t" using t0 by (intro js_rem_small)
    moreover have "js_rem (t + 360) 360 = t + 360 - 360"
      using t0 True by (intro js_rem_once) simp_all
    ultimately show ?thesis using eff True t0 False by (simp add: t_def)
  next
    case f: False
    then have "js_rem t 360 = t - 360" using t1 by (intro js_rem_once) simp_all
    moreover have "js_rem (t - 360 + 360) 360 = t - 360 + 360 - 360"
      using f t1 by (intro js_rem_once) simp_all
    ultimately show ?thesis using eff f t1 False by (simp add: t_def)
  qed
qed

text \<open>From 359 degrees: towards 20 through 0 to 2.15, towards 3 to 359.6, towards 2 no move.\<close>

theorem heading_wraparound_forward_witness:
  "smoothHeadingEffect True (Some 20) 359 = 2.15
   \<and> smoothHeadingEffect True (Some 3) 359 = 359.6
   \<and> smoothHeadingEffect True (Some 2) 359 = 359"
proof -
  have "smoothHeadingEffect True (Some 20) 359 = 2.15"
    using heading_wraparound_forward [of 20 359] by simp
  moreover have "smoothHeadingEffect True (Some 3) 359 = 359.6"
    using heading_wraparound_forward [of 3 359] by simp
  moreover have "smoothHeadingEffect True (Some 2) 359 = 359"
    using heading_wraparound_forward [of 2 359] by simp
  ultimately show ?thesis by (intro conjI)
qed

subsection \<open>C7: the waypoint index\<close>




subsection \<open>C8: the effective speed\<close>

text \<open>
  C8 as stated fails. The session's stored speed is 80 km/h and the sample reports
  5 km/h. The sample's speed is stored, 5, but the remaining time of this sample is
  computed with 80 km/h, not with 70: it is smaller than what 70 km/h gives.
\<close>

theorem eta_uses_stored_speed:
  "speed (processSample exampleProps (exampleSession\<lparr>speed := 80\<rparr>) exampleSlowSample) = 5
   \<and> remainingTime (processSample exampleProps (exampleSession\<lparr>speed := 80\<rparr>) exampleSlowSample)
       = Math_round (calcDist 49.9 8 50.1 8 / 80 * 60)
   \<and> remainingTime (processSample exampleProps (exampleSession\<lparr>speed := 80\<rparr>) exampleSlowSample)
       < Math_round (calcDist 49.9 8 50.1 8 / 70 * 60)"
proof -
  have s: "speed (processSample exampleProps (exampleSession\<lparr>speed := 80\<rparr>) exampleSlowSample) = 5"
    by (simp add: processSample_speed exampleSlowSample_def Math_round_def)
  have r: "remainingTime (processSample exampleProps (exampleSession\<lparr>speed := 80\<rparr>) exampleSlowSample)
       = Math_round (calcDist 49.9 8 50.1 8 / 80 * 60)"
    using processSample_final(2) [OF exampleProps_final, of "exampleSession\<lparr>speed := 80\<rparr>" exampleSlowSample]
    by (simp add: exampleSlowSample_def)
  have "calcDist 49.9 8 50.1 8 / 80 * 60 + 1 \<le> calcDist 49.9 8 50.1 8 / 70 * 60"
    using example_distance_ge by simp
  then have "Math_round (calcDist 49.9 8 50.1 8 / 80 * 60) < Math_round (calcDist 49.9 8 50.1 8 / 70 * 60)"
    by (rule Math_round_less)
  with s r show ?thesis by simp
qed

text \<open>
  C8, as the code has it. The times to the final destination and to the next waypoint are
  computed with the speed the session has stored when the sample arrives, if that is
  more than 10 km/h, and with 70 km/h otherwise. The speed of the sample itself, rounded
  to whole km/h, is stored for the samples after it; a sample without a speed leaves the
  stored one.
\<close>

theorem effective_speed_fallback:
  "(\<forall>e td. endCoords p = Some e \<and> totalDistance p = Some td \<and> td \<noteq> 0 \<longrightarrow>
       remainingTime (processSample p st pos)
         = Math_round (calcDist (latitude pos) (longitude pos) (lat e) (lon e)
                        / (if 10 < speed st then speed st else 70) * 60))
   \<and> (\<forall>d dla dlo. currentDestination (allDestinations p) (currentWaypointIndex st) = Some d
          \<and> dest_lat d = Some dla \<and> dest_lon d = Some dlo \<longrightarrow>
       timeToNextWaypoint (processSample p st pos)
         = Math_round (calcDist (latitude pos) (longitude pos) dla dlo
                        / (if 10 < speed st then speed st else 70) * 60))
   \<and> speed (processSample p st pos)
        = (case pos_speed pos of None \<Rightarrow> speed st | Some s \<Rightarrow> Math_round (s * 3.6))"
  using processSample_final(2) [of p _ _ st pos] processSample_next [of p st _ _ _ pos]
    processSample_speed [of p st pos]
  by blast

text \<open>With a stored speed of 5 km/h both times are computed with 70, with 80 with 80.\<close>

theorem effective_speed_fallback_witness:
  "remainingTime (processSample exampleStopProps (exampleSession\<lparr>speed := 5\<rparr>) exampleSlowSample)
     = Math_round (calcDist 49.9 8 50.1 8 / 70 * 60)
   \<and> timeToNextWaypoint (processSample exampleStopProps (exampleSession\<lparr>speed := 5\<rparr>) exampleSlowSample)
     = Math_round (calcDist 49.9 8 50.05 8 / 70 * 60)
   \<and> remainingTime (processSample exampleStopProps (exampleSession\<lparr>speed := 80\<rparr>) exampleSlowSample)
     = Math_round (calcDist 49.9 8 50.1 8 / 80 * 60)"
proof -
  have e: "endCoords exampleStopProps = Some \<lparr>lat = 50.1, lon = 8\<rparr>
      \<and> totalDistance exampleStopProps = Some 12 \<and> (12 :: real) \<noteq> 0"
    by (simp add: exampleStopProps_def exampleProps_def)
  have d: "currentDestination (allDestinations exampleStopProps)
             (currentWaypointIndex (exampleSession\<lparr>speed := 5\<rparr>))
           = Some \<lparr>dest_name = ''Rasthof'', dest_lat = Some 50.05, dest_lon = Some 8,
                   dest_isRestStop = True\<rparr>
      \<and> dest_lat \<lparr>dest_name = ''Rasthof'', dest_lat = Some 50.05, dest_lon = Some 8,
                   dest_isRestStop = True\<rparr> = Some 50.05
      \<and> dest_lon \<lparr>dest_name = ''Rasthof'', dest_lat = Some 50.05, dest_lon = Some 8,
                   dest_isRestStop = True\<rparr> = Some 8"
    by (simp add: exampleStop_destinations currentDestination_def exampleSession_def
          initialSession_def)
  note a = effective_speed_fallback [of exampleStopProps "exampleSession\<lparr>speed := 5\<rparr>" exampleSlowSample]
  note b = effective_speed_fallback [of exampleStopProps "exampleSession\<lparr>speed := 80\<rparr>" exampleSlowSample]
  have "remainingTime (processSample exampleStopProps (exampleSession\<lparr>speed := 5\<rparr>) exampleSlowSample)
     = Math_round (calcDist 49.9 8 50.1 8 / 70 * 60)"
    using a [THEN conjunct1, rule_format, OF e] by (simp add: exampleSlowSample_def)
  moreover have "timeToNextWaypoint (processSample exampleStopProps (exampleSession\<lparr>speed := 5\<rparr>) exampleSlowSample)
     = Math_round (calcDist 49.9 8 50.05 8 / 70 * 60)"
    using a [THEN conjunct2, THEN conjunct1, rule_format, OF d] by (simp add: exampleSlowSample_def)
  moreover have "remainingTime (processSample exampleStopProps (exampleSession\<lparr>speed := 80\<rparr>) exampleSlowSample)
     = Math_round (calcDist 49.9 8 50.1 8 / 80 * 60)"
    using b [THEN conjunct1, rule_format, OF e] by (simp add: exampleSlowSample_def)
  ultimately show ?thesis by (intro conjI)
qed

subsection \<open>C9: the break warning\<close>

text \<open>
  C9. In a session, from its start and through any sequence of events (ticks, position
  samples, presses of the three buttons, under whatever props), \<open>drivingTime\<close> is the
  number of ticks so far:
  every tick adds one and nothing ever resets it. \<open>showBreakWarning\<close> goes from false to
  true once if there have been 240 ticks or more and not at all before that; and at
  every state the session passes through, the one event that turns it on is the tick
  that brings the counter to 240, so the tick to 241 and every later tick leave a
  dismissed warning off.
\<close>

theorem break_warning_one_shot:
  "drivingTime (last (sessionTrace (initialSession sc td du) es))
     = count_list (map snd es) DrivingTick
   \<and> breakWarningsRaised (sessionTrace (initialSession sc td du) es)
       = (if 240 \<le> count_list (map snd es) DrivingTick then 1 else 0)
   \<and> (\<forall>st \<in> set (sessionTrace (initialSession sc td du) es). \<forall>p e.
         (\<not> showBreakWarning st \<and> showBreakWarning (handleEvent p st e))
           = (e = DrivingTick \<and> drivingTime st + 1 = 240))"
proof -
  have i: "drivingTime (initialSession sc td du) < 240
             \<longrightarrow> \<not> showBreakWarning (initialSession sc td du)"
    by (simp add: initialSession_break)
  have "drivingTime (last (sessionTrace (initialSession sc td du) es))
          = count_list (map snd es) DrivingTick"
    by (simp add: sessionTrace_last_drivingTime initialSession_break)
  moreover have "breakWarningsRaised (sessionTrace (initialSession sc td du) es)
       = (if 240 \<le> count_list (map snd es) DrivingTick then 1 else 0)"
    by (simp add: breakWarningsRaised_trace [OF i] initialSession_break)
  moreover have "\<forall>st \<in> set (sessionTrace (initialSession sc td du) es). \<forall>p e.
         (\<not> showBreakWarning st \<and> showBreakWarning (handleEvent p st e))
           = (e = DrivingTick \<and> drivingTime st + 1 = 240)"
    using sessionTrace_break_invariant [OF i] raised_by_the_tick_to_240 by blast
  ultimately show ?thesis by (intro conjI)
qed

text \<open>
  239 ticks and a sample raise no warning; with a tick more, the warning dismissed, a
  press of the recalculation button and the tick to 241, the warning was raised once and
  the counter is 241. The first tick of a session raises none.
\<close>

theorem break_warning_one_shot_witness:
  "drivingTime (last (sessionTrace exampleSession
       (map (Pair exampleProps)
          (replicate 239 DrivingTick
             @ [PositionSample exampleSlowSample, DrivingTick, UnderstoodButton,
                RecalculateButton 40000, DrivingTick])))) = 241
   \<and> breakWarningsRaised (sessionTrace exampleSession
       (map (Pair exampleProps)
          (replicate 239 DrivingTick
             @ [PositionSample exampleSlowSample, DrivingTick, UnderstoodButton,
                RecalculateButton 40000, DrivingTick]))) = 1
   \<and> breakWarningsRaised (sessionTrace exampleSession
       (map (Pair exampleProps)
          (replicate 239 DrivingTick @ [PositionSample exampleSlowSample]))) = 0
   \<and> exampleSession \<in> set (sessionTrace exampleSession [])
   \<and> \<not> showBreakWarning (handleEvent exampleProps exampleSession DrivingTick)"
proof -
  note a = break_warning_one_shot [of "Some \<lparr>lat = 50, lon = 8\<rparr>" "Some 12" "Some 15"
      "map (Pair exampleProps)
          (replicate 239 DrivingTick
             @ [PositionSample exampleSlowSample, DrivingTick, UnderstoodButton,
                RecalculateButton 40000, DrivingTick])", folded exampleSession_def]
  note b = break_warning_one_shot [of "Some \<lparr>lat = 50, lon = 8\<rparr>" "Some 12" "Some 15"
      "map (Pair exampleProps)
          (replicate 239 DrivingTick @ [PositionSample exampleSlowSample])",
      folded exampleSession_def]
  note c = break_warning_one_shot [of "Some \<lparr>lat = 50, lon = 8\<rparr>" "Some 12" "Some 15"
      "[]", folded exampleSession_def]
  have m: "exampleSession \<in> set (sessionTrace exampleSession [])" by simp
  have d: "drivingTime exampleSession = 0" "\<not> showBreakWarning exampleSession"
    by (simp_all add: exampleSession_def initialSession_def)
  have s: "map snd (map (Pair exampleProps) xs) = xs" for xs :: "event list"
    by (simp add: comp_def)
  have "drivingTime (last (sessionTrace exampleSession
       (map (Pair exampleProps)
          (replicate 239 DrivingTick
             @ [PositionSample exampleSlowSample, DrivingTick, UnderstoodButton,
                RecalculateButton 40000, DrivingTick])))) = 241"
    using a [THEN conjunct1] unfolding s by (simp add: count_list_replicate_same)
  moreover have "breakWarningsRaised (sessionTrace exampleSession
       (map (Pair exampleProps)
          (replicate 239 DrivingTick
             @ [PositionSample exampleSlowSample, DrivingTick, UnderstoodButton,
                RecalculateButton 40000, DrivingTick]))) = 1"
    using a [THEN conjunct2, THEN conjunct1] unfolding s
    by (simp add: count_list_replicate_same)
  moreover have "breakWarningsRaised (sessionTrace exampleSession
       (map (Pair exampleProps)
          (replicate 239 DrivingTick @ [PositionSample exampleSlowSample]))) = 0"
    using b [THEN conjunct2, THEN conjunct1] unfolding s
    by (simp add: count_list_replicate_same)
  moreover have "\<not> showBreakWarning (handleEvent exampleProps exampleSession DrivingTick)"
    using c [THEN conjunct2, THEN conjunct2, rule_format, OF m, of exampleProps DrivingTick] d
    by simp
  ultimately show ?thesis using m by (intro conjI)
qed

subsection \<open>C10: a rejected trigger changes nothing\<close>

text \<open>
  C10. A recalculation trigger that arrives 30 seconds or less after the last accepted one
  changes nothing: \<^verbatim>\<open>handleRecalculate\<close> returns the session as it was, with
  \<open>lastRecalculateTime\<close>, \<open>isOffRoute\<close> and the prompt flag untouched, and makes no call to the
  routing callback, so the planner's state is as it was too.
\<close>

theorem cooldown_rejection_noop:
  "now - lastRecalculateTime st \<le> 30000 \<Longrightarrow>
     handleRecalculate p st now = (st, None) \<and>
     recalculateTrigger p pl st now outcome = (st, pl, [])"
  by (simp add: handleRecalculate_def recalculateTrigger_def)

text \<open>A trigger exactly 30 s after the last accepted one, in a flagged session.\<close>

theorem cooldown_rejection_noop_witness:
  "(130000 :: int) - lastRecalculateTime (exampleSession\<lparr>lastRecalculateTime := 100000, isOffRoute := True, showRecalculatePrompt := True\<rparr>) \<le> 30000
   \<and> handleRecalculate exampleProps
        (exampleSession\<lparr>lastRecalculateTime := 100000, isOffRoute := True, showRecalculatePrompt := True\<rparr>) 130000
      = (exampleSession\<lparr>lastRecalculateTime := 100000, isOffRoute := True, showRecalculatePrompt := True\<rparr>, None)
   \<and> recalculateTrigger exampleProps examplePlanner
        (exampleSession\<lparr>lastRecalculateTime := 100000, isOffRoute := True, showRecalculatePrompt := True\<rparr>) 130000 Rejected
      = (exampleSession\<lparr>lastRecalculateTime := 100000, isOffRoute := True, showRecalculatePrompt := True\<rparr>, examplePlanner, [])"
  using cooldown_rejection_noop [of 130000
      "exampleSession\<lparr>lastRecalculateTime := 100000, isOffRoute := True, showRecalculatePrompt := True\<rparr>"
      exampleProps examplePlanner Rejected]
  by simp

end
